theory Spec2Isabelle
  imports Complex_Main "HOL-Library.AList"
begin

section \<open>Modelling conventions\<close>

text \<open>
  The theory embeds the matching engine of the resume relevance checker
  (\<^verbatim>\<open>text_preprocessor.py\<close>, \<^verbatim>\<open>matching_service.py\<close>, \<^verbatim>\<open>embedding_service.py\<close>,
  \<^verbatim>\<open>config.py\<close>).

  \<^item> Texts are ASCII strings: a Python \<^verbatim>\<open>str\<close> is a \<open>string\<close> whose characters are read
    as ASCII code points. The character classes below are Python's on that range.
  \<^item> Python floats are idealised as \<open>real\<close>. Where numpy produces a value that is not a
    number (the quotient 0/0), the value is kept explicit in the type \<open>npfloat\<close>.
  \<^item> A Python \<^verbatim>\<open>set\<close> has no specified iteration order. \<open>list(set(xs))\<close> is modelled by
    \<open>remdups\<close>, which fixes one order; the theorems speak of membership and of sizes.
  \<^item> Third-party components (the spaCy analyzer, the sentence encoder, the fuzzy string
    scorer) are parameters of the model; a call of the analyzer or of the encoder may raise.
    The vector store is modelled by what the service relies on of it.
\<close>

section \<open>Characters and strings (Python \<^verbatim>\<open>str\<close> on ASCII)\<close>

definition code :: "char \<Rightarrow> nat" where
  "code c = of_char c"

text \<open>\<^verbatim>\<open>str.isspace\<close> and the class \<^verbatim>\<open>\s\<close> of a \<^verbatim>\<open>str\<close> pattern: codes 9 to 13, 28 to 32.\<close>

definition is_space :: "char \<Rightarrow> bool" where
  "is_space c = ((9 \<le> code c \<and> code c \<le> 13) \<or> (28 \<le> code c \<and> code c \<le> 32))"

definition is_digit :: "char \<Rightarrow> bool" where
  "is_digit c = (48 \<le> code c \<and> code c \<le> 57)"

definition is_upper :: "char \<Rightarrow> bool" where
  "is_upper c = (65 \<le> code c \<and> code c \<le> 90)"

definition is_lower :: "char \<Rightarrow> bool" where
  "is_lower c = (97 \<le> code c \<and> code c \<le> 122)"

text \<open>The class \<^verbatim>\<open>\w\<close>: letters, digits and the underscore.\<close>

definition is_word :: "char \<Rightarrow> bool" where
  "is_word c = (is_digit c \<or> is_upper c \<or> is_lower c \<or> c = CHR ''_'')"

definition lower_char :: "char \<Rightarrow> char" where
  "lower_char c = (if is_upper c then char_of (code c + 32) else c)"

text \<open>\<^verbatim>\<open>text.lower()\<close>\<close>

definition lower :: "string \<Rightarrow> string" where
  "lower s = map lower_char s"

text \<open>\<^verbatim>\<open>text.split()\<close>: the maximal runs of characters that are not whitespace.\<close>

primrec split_aux :: "string \<Rightarrow> string \<Rightarrow> string list" where
  "split_aux [] w = (if w = [] then [] else [rev w])"
| "split_aux (c # s) w =
     (if is_space c then (if w = [] then split_aux s [] else rev w # split_aux s [])
      else split_aux s (c # w))"

definition split :: "string \<Rightarrow> string list" where
  "split s = split_aux s []"

text \<open>\<^verbatim>\<open>sep.join(words)\<close>\<close>

fun join :: "string \<Rightarrow> string list \<Rightarrow> string" where
  "join sep [] = []"
| "join sep [w] = w"
| "join sep (w # v # ws) = w @ sep @ join sep (v # ws)"

text \<open>\<^verbatim>\<open>text.strip()\<close>\<close>

definition strip :: "string \<Rightarrow> string" where
  "strip s = rev (dropWhile is_space (rev (dropWhile is_space s)))"

text \<open>\<^verbatim>\<open>needle in haystack\<close> for strings: substring containment.\<close>

fun starts_with :: "string \<Rightarrow> string \<Rightarrow> bool" where
  "starts_with s [] = True"
| "starts_with [] (c # p) = False"
| "starts_with (d # s) (c # p) = (d = c \<and> starts_with s p)"

fun contains :: "string \<Rightarrow> string \<Rightarrow> bool" where
  "contains [] needle = (needle = [])"
| "contains (c # s) needle = (starts_with (c # s) needle \<or> contains s needle)"

section \<open>Regular expressions (Python \<^verbatim>\<open>re\<close>, backtracking semantics)\<close>

text \<open>
  The fragment of \<^verbatim>\<open>re\<close> that \<^verbatim>\<open>preprocess_text\<close> uses: character sets (with ranges, the
  classes \<^verbatim>\<open>\w \s \d\<close> and negation), concatenation, ordered alternation, the greedy
  quantifiers and the word boundary \<^verbatim>\<open>\b\<close>.
\<close>

datatype cset_item = Single char | Range char char | Word_Class | Space_Class | Digit_Class

fun in_item :: "cset_item \<Rightarrow> char \<Rightarrow> bool" where
  "in_item (Single a) c = (c = a)"
| "in_item (Range a b) c = (code a \<le> code c \<and> code c \<le> code b)"
| "in_item Word_Class c = is_word c"
| "in_item Space_Class c = is_space c"
| "in_item Digit_Class c = is_digit c"

datatype regex =
    Eps
  | Atom bool "cset_item list"
  | Seq regex regex
  | Alt regex regex
  | Star regex
  | Word_Boundary

text \<open>\<open>Atom negated items\<close> is the set \<^verbatim>\<open>[items]\<close>, or \<^verbatim>\<open>[^items]\<close> when \<open>negated\<close>.\<close>

definition in_atom :: "bool \<Rightarrow> cset_item list \<Rightarrow> char \<Rightarrow> bool" where
  "in_atom negated items c = (list_ex (\<lambda>i. in_item i c) items \<noteq> negated)"

text \<open>
  A position in the subject is the character before it (if any, for \<^verbatim>\<open>\b\<close>) and the rest
  of the string. \<open>match_ends r pos\<close> lists the positions where a match of \<open>r\<close> starting at
  \<open>pos\<close> can end, in the order in which the backtracking matcher tries them: the left branch
  of an alternation first, one more iteration of a greedy star before stopping. An iteration
  of a star that consumes nothing ends the iteration, as in \<^verbatim>\<open>re\<close>.
\<close>

type_synonym pos = "char option \<times> string"

definition at_boundary :: "pos \<Rightarrow> bool" where
  "at_boundary p =
     ((case fst p of None \<Rightarrow> False | Some c \<Rightarrow> is_word c)
      \<noteq> (case snd p of [] \<Rightarrow> False | c # _ \<Rightarrow> is_word c))"

function match_ends :: "regex \<Rightarrow> pos \<Rightarrow> pos list" where
  "match_ends Eps p = [p]"
| "match_ends (Atom negated items) p =
     (case snd p of [] \<Rightarrow> []
      | c # s \<Rightarrow> if in_atom negated items c then [(Some c, s)] else [])"
| "match_ends (Seq a b) p = concat (map (match_ends b) (match_ends a p))"
| "match_ends (Alt a b) p = match_ends a p @ match_ends b p"
| "match_ends (Star a) p =
     concat (map (\<lambda>q. if length (snd q) < length (snd p) then match_ends (Star a) q else [])
                 (match_ends a p)) @ [p]"
| "match_ends Word_Boundary p = (if at_boundary p then [p] else [])"
  by pat_completeness auto
termination
  by (relation "measure size <*lex*> measure (\<lambda>p. length (snd p))") auto

text \<open>The equation of the star unfolds itself; it is applied by hand.\<close>

declare match_ends.simps(5) [simp del]

text \<open>The derived forms of the pattern syntax.\<close>

definition Lit :: "char \<Rightarrow> regex" where
  "Lit c = Atom False [Single c]"

definition Opt :: "regex \<Rightarrow> regex" where
  "Opt r = Alt r Eps"

definition Plus :: "regex \<Rightarrow> regex" where
  "Plus r = Seq r (Star r)"

text \<open>\<^verbatim>\<open>r{n}\<close>, \<^verbatim>\<open>r{0,n}\<close> (greedy) and the concatenation of the literals of a string.\<close>

primrec Times :: "nat \<Rightarrow> regex \<Rightarrow> regex" where
  "Times 0 r = Eps"
| "Times (Suc n) r = Seq r (Times n r)"

primrec Upto :: "nat \<Rightarrow> regex \<Rightarrow> regex" where
  "Upto 0 r = Eps"
| "Upto (Suc n) r = Alt (Seq r (Upto n r)) Eps"

primrec Str :: "string \<Rightarrow> regex" where
  "Str [] = Eps"
| "Str (c # s) = Seq (Lit c) (Str s)"

text \<open>
  \<^verbatim>\<open>re.sub(pattern, repl, text)\<close> for a replacement without group references: scanning
  from the left, the first match the matcher finds at a position is replaced and the scan
  goes on behind it; where nothing matches, the character is copied. None of the patterns
  below matches the empty string, so that the treatment of empty matches plays no role:
  the model copies the character there.
\<close>

function re_sub_from :: "regex \<Rightarrow> string \<Rightarrow> pos \<Rightarrow> string" where
  "re_sub_from r repl (prev, []) = []"
| "re_sub_from r repl (prev, c # s) =
     (case match_ends r (prev, c # s) of
        [] \<Rightarrow> c # re_sub_from r repl (Some c, s)
      | q # _ \<Rightarrow>
          if length (snd q) < length (c # s) then repl @ re_sub_from r repl q
          else c # re_sub_from r repl (Some c, s))"
  by pat_completeness auto
termination
  by (relation "measure (\<lambda>(r, repl, p). length (snd p))") auto

definition re_sub :: "regex \<Rightarrow> string \<Rightarrow> string \<Rightarrow> string" where
  "re_sub r repl text = re_sub_from r repl (None, text)"

section \<open>\<^verbatim>\<open>TextPreprocessor.preprocess_text\<close>\<close>

text \<open>\<^verbatim>\<open>\s+\<close>\<close>

definition whitespace_pattern :: regex where
  "whitespace_pattern = Plus (Atom False [Space_Class])"

text \<open>\<^verbatim>\<open>http[s]?://(?:[a-zA-Z]|[0-9]|[$-_@.&+]|[!*\\(\\),]|(?:%[0-9a-fA-F][0-9a-fA-F]))+\<close>\<close>

definition hex_digit :: regex where
  "hex_digit = Atom False [Range CHR ''0'' CHR ''9'', Range CHR ''a'' CHR ''f'',
                           Range CHR ''A'' CHR ''F'']"

definition url_pattern :: regex where
  "url_pattern =
     Seq (Str ''http'') (Seq (Opt (Atom False [Single CHR ''s''])) (Seq (Str ''://'')
       (Plus
         (Alt (Atom False [Range CHR ''a'' CHR ''z'', Range CHR ''A'' CHR ''Z''])
         (Alt (Atom False [Range CHR ''0'' CHR ''9''])
         (Alt (Atom False [Range CHR ''$'' CHR ''_'', Single CHR ''@'', Single CHR ''.'',
                           Single CHR ''&'', Single CHR ''+''])
         (Alt (Atom False [Single CHR ''!'', Single CHR ''*'', Single (CHR 0x5C),
                           Single CHR ''('', Single (CHR 0x5C), Single CHR '')'',
                           Single CHR '',''])
              (Seq (Lit CHR ''%'') (Seq hex_digit hex_digit)))))))))"

text \<open>\<^verbatim>\<open>\b[A-Za-z0-9._%+-]+@[A-Za-z0-9.-]+\.[A-Z|a-z]{2,}\b\<close>\<close>

definition email_pattern :: regex where
  "email_pattern =
     Seq Word_Boundary
    (Seq (Plus (Atom False [Range CHR ''A'' CHR ''Z'', Range CHR ''a'' CHR ''z'',
                            Range CHR ''0'' CHR ''9'', Single CHR ''.'', Single CHR ''_'',
                            Single CHR ''%'', Single CHR ''+'', Single CHR ''-'']))
    (Seq (Lit CHR ''@'')
    (Seq (Plus (Atom False [Range CHR ''A'' CHR ''Z'', Range CHR ''a'' CHR ''z'',
                            Range CHR ''0'' CHR ''9'', Single CHR ''.'', Single CHR ''-'']))
    (Seq (Lit CHR ''.'')
    (Seq (Seq (Times 2 (Atom False [Range CHR ''A'' CHR ''Z'', Single CHR ''|'',
                                    Range CHR ''a'' CHR ''z'']))
              (Star (Atom False [Range CHR ''A'' CHR ''Z'', Single CHR ''|'',
                                 Range CHR ''a'' CHR ''z''])))
         Word_Boundary)))))"

text \<open>\<^verbatim>\<open>(\+\d{1,3}[-.\s]?)?\(?\d{3}\)?[-.\s]?\d{3}[-.\s]?\d{4}\<close>\<close>

definition separator :: regex where
  "separator = Opt (Atom False [Single CHR ''-'', Single CHR ''.'', Space_Class])"

definition digit :: regex where
  "digit = Atom False [Digit_Class]"

definition phone_pattern :: regex where
  "phone_pattern =
     Seq (Opt (Seq (Lit CHR ''+'') (Seq (Seq digit (Upto 2 digit)) separator)))
    (Seq (Opt (Lit CHR ''(''))
    (Seq (Times 3 digit)
    (Seq (Opt (Lit CHR '')''))
    (Seq separator
    (Seq (Times 3 digit)
    (Seq separator (Times 4 digit)))))))"

text \<open>\<^verbatim>\<open>[^\w\s]\<close>\<close>

definition punctuation_pattern :: regex where
  "punctuation_pattern = Atom True [Word_Class, Space_Class]"

definition preprocess_text :: "string \<Rightarrow> string" where
  "preprocess_text text =
     (if text = [] then []
      else
        let text = lower text;
            text = re_sub whitespace_pattern '' '' text;
            text = re_sub url_pattern [] text;
            text = re_sub email_pattern [] text;
            text = re_sub phone_pattern [] text;
            text = re_sub punctuation_pattern '' '' text;
            text = join '' '' (split text)
        in strip text)"

section \<open>Feature extraction (\<^verbatim>\<open>TextPreprocessor\<close>)\<close>

text \<open>Any Python exception; the handlers of the engine catch \<^verbatim>\<open>Exception\<close> without looking at it.\<close>

datatype exn = Exception

text \<open>
  What the code reads of a spaCy \<^verbatim>\<open>Doc\<close>: the entity spans, the noun chunks, the tokens and
  the sentences. The analyzer \<^verbatim>\<open>self.nlp\<close> is \<^verbatim>\<open>None\<close> when the model is not installed, and a
  call of it may raise (spaCy refuses a text longer than its \<^verbatim>\<open>max_length\<close>, for one).
\<close>

record token =
  token_text :: string
  token_lemma :: string
  is_stop :: bool
  is_punct :: bool

record doc =
  ents :: "string list"
  noun_chunks :: "string list"
  tokens :: "token list"
  sents :: "string list"

type_synonym analyzer = "string \<Rightarrow> exn + doc"

text \<open>\<^verbatim>\<open>extract_keywords(text, min_length)\<close>; the keywords are collected in a set.\<close>

definition spacy_keywords :: "doc \<Rightarrow> nat \<Rightarrow> string list" where
  "spacy_keywords d min_length =
     [lower e. e \<leftarrow> ents d, min_length \<le> length e]
     @ [lower c. c \<leftarrow> noun_chunks d, min_length \<le> length c]
     @ [lower (token_lemma t). t \<leftarrow> tokens d,
          \<not> is_stop t \<and> \<not> is_punct t \<and> min_length \<le> length (token_text t)]"

definition extract_keywords :: "analyzer option \<Rightarrow> string \<Rightarrow> nat \<Rightarrow> exn + string list" where
  "extract_keywords nlp text min_length =
     (if text = [] then Inr []
      else
        let clean_text = preprocess_text text;
            words = [w \<leftarrow> split clean_text. min_length \<le> length w]
        in case nlp of
             None \<Rightarrow> Inr (remdups words)
           | Some analyze \<Rightarrow>
               (case analyze clean_text of
                  Inl e \<Rightarrow> Inl e
                | Inr d \<Rightarrow> Inr (remdups (spacy_keywords d min_length @ words))))"

text \<open>The skill vocabulary of \<^verbatim>\<open>extract_technical_skills\<close>, by category.\<close>

definition technical_skills :: "(string \<times> string list) list" where
  "technical_skills =
    [(''programming_languages'',
       [''python'', ''java'', ''javascript'', ''c++'', ''c#'', ''php'', ''ruby'', ''go'',
        ''rust'', ''typescript'', ''kotlin'', ''swift'', ''scala'', ''r'', ''matlab'',
        ''perl'']),
     (''frameworks'',
       [''react'', ''angular'', ''vue'', ''django'', ''flask'', ''spring'', ''express'',
        ''laravel'', ''rails'', ''fastapi'', ''node.js'', ''asp.net'']),
     (''databases'',
       [''mysql'', ''postgresql'', ''mongodb'', ''sqlite'', ''redis'', ''elasticsearch'',
        ''oracle'', ''sql server'', ''cassandra'', ''firebase'']),
     (''cloud_platforms'',
       [''aws'', ''azure'', ''gcp'', ''google cloud'', ''heroku'', ''digitalocean'',
        ''docker'', ''kubernetes'', ''terraform'']),
     (''tools'',
       [''git'', ''jenkins'', ''jira'', ''confluence'', ''postman'', ''figma'',
        ''photoshop'', ''illustrator'', ''tableau'', ''power bi'']),
     (''data_science'',
       [''machine learning'', ''deep learning'', ''tensorflow'', ''pytorch'',
        ''scikit-learn'', ''pandas'', ''numpy'', ''matplotlib'', ''seaborn'',
        ''jupyter'', ''data analysis'', ''statistics''])]"

definition extract_technical_skills :: "string \<Rightarrow> string list" where
  "extract_technical_skills text =
     (let text_lower = lower text;
          found_skills = concat (map (\<lambda>(category, skills).
                            [skill \<leftarrow> skills. contains text_lower skill]) technical_skills)
      in remdups found_skills)"

definition certifications :: "string list" where
  "certifications =
     [''aws certified'', ''azure certified'', ''google cloud certified'',
      ''pmp'', ''cissp'', ''ceh'', ''ccna'', ''ccnp'', ''ccie'',
      ''oracle certified'', ''microsoft certified'', ''comptia'',
      ''scrum master'', ''product owner'', ''six sigma'']"

definition extract_certifications :: "string \<Rightarrow> string list" where
  "extract_certifications text =
     (let text_lower = lower text in [cert \<leftarrow> certifications. contains text_lower cert])"

section \<open>Fuzzy skill matching (\<^verbatim>\<open>TextPreprocessor.fuzzy_match_skills\<close>)\<close>

text \<open>
  The score that \<^verbatim>\<open>process.extractOne(..., scorer=fuzz.token_sort_ratio)\<close> gives a query and a
  choice, on the scale 0 to 100, is a parameter: it is computed by the fuzzywuzzy library
  (with one of two string-distance back ends). \<^verbatim>\<open>extractOne\<close> scores every choice, keeps
  those that reach its cutoff 0 (all of them) and returns the first pair with the highest
  score (\<^verbatim>\<open>max\<close> with a key), or \<^verbatim>\<open>None\<close> when there is no choice.
\<close>

type_synonym scorer = "string \<Rightarrow> string \<Rightarrow> nat"

fun max_by_score :: "string \<times> nat \<Rightarrow> (string \<times> nat) list \<Rightarrow> string \<times> nat" where
  "max_by_score best [] = best"
| "max_by_score best (x # xs) = max_by_score (if snd best < snd x then x else best) xs"

definition extractOne :: "scorer \<Rightarrow> string \<Rightarrow> string list \<Rightarrow> (string \<times> nat) option" where
  "extractOne score query choices =
     (case map (\<lambda>choice. (choice, score query choice)) choices of
        [] \<Rightarrow> None
      | x # xs \<Rightarrow> Some (max_by_score x xs))"

record fuzzy_match =
  matched_skill :: string
  similarity :: real

text \<open>
  The dictionary \<^verbatim>\<open>matches\<close> is an association list in insertion order; the assignment
  \<^verbatim>\<open>matches[job_skill] = ...\<close> is \<open>AList.update\<close>.
\<close>

definition fuzzy_step ::
  "scorer \<Rightarrow> string list \<Rightarrow> int \<Rightarrow> (string \<times> fuzzy_match) list \<Rightarrow> string
     \<Rightarrow> (string \<times> fuzzy_match) list" where
  "fuzzy_step score resume_skills threshold matches job_skill =
     (case extractOne score job_skill resume_skills of
        None \<Rightarrow> matches
      | Some best_match \<Rightarrow>
          if threshold \<le> int (snd best_match)
          then AList.update job_skill
                 \<lparr>matched_skill = fst best_match, similarity = real (snd best_match) / 100\<rparr>
                 matches
          else matches)"

definition fuzzy_match_skills ::
  "scorer \<Rightarrow> string list \<Rightarrow> string list \<Rightarrow> int \<Rightarrow> (string \<times> fuzzy_match) list" where
  "fuzzy_match_skills score resume_skills job_skills threshold =
     foldl (fuzzy_step score resume_skills threshold) [] job_skills"

section \<open>Hard matching (\<^verbatim>\<open>MatchingEngine.calculate_hard_match_score\<close>)\<close>

text \<open>\<^verbatim>\<open>set(xs) & set(ys)\<close> and \<^verbatim>\<open>set(xs) - set(ys)\<close>, listed.\<close>

definition set_inter :: "string list \<Rightarrow> string list \<Rightarrow> string list" where
  "set_inter xs ys = remdups [x \<leftarrow> xs. x \<in> set ys]"

definition set_diff :: "string list \<Rightarrow> string list \<Rightarrow> string list" where
  "set_diff xs ys = remdups [x \<leftarrow> xs. x \<notin> set ys]"

record hard_match_results =
  hard_match_score :: real
  skill_matches :: "string list"
  keyword_matches :: "string list"
  cert_matches :: "string list"
  fuzzy_skill_matches :: "(string \<times> fuzzy_match) list"
  missing_skills :: "string list"
  missing_certs :: "string list"
  skill_score :: real
  keyword_score :: real
  cert_score :: real

text \<open>The scores computed from the extracted features (the body of the \<^verbatim>\<open>try\<close> after extraction).\<close>

definition hard_match_of_features ::
  "scorer \<Rightarrow> string list \<Rightarrow> string list \<Rightarrow> string list \<Rightarrow> string list
     \<Rightarrow> string list \<Rightarrow> string list \<Rightarrow> hard_match_results" where
  "hard_match_of_features score resume_skills job_skills resume_keywords job_keywords
       resume_certs job_certs =
     (let skill_matches' = set_inter resume_skills job_skills;
          keyword_matches' = set_inter resume_keywords job_keywords;
          cert_matches' = set_inter resume_certs job_certs;
          fuzzy = fuzzy_match_skills score resume_skills job_skills 75;
          skill_score' =
            (if job_skills \<noteq> [] then
               let exact_skill_score = real (length skill_matches') / real (length job_skills);
                   fuzzy_skill_score =
                     sum_list (map (\<lambda>m. similarity (snd m)) fuzzy) / real (length job_skills)
               in max exact_skill_score (fuzzy_skill_score * 0.8)
             else 0);
          keyword_score' =
            (if job_keywords \<noteq> [] then
               real (length keyword_matches') / real (length job_keywords) else 0);
          cert_score' =
            (if job_certs \<noteq> [] then
               real (length cert_matches') / real (length job_certs) else 0);
          score' = skill_score' * 0.6 + keyword_score' * 0.3 + cert_score' * 0.1
      in \<lparr>hard_match_score = min 1 score',
          skill_matches = skill_matches',
          keyword_matches = keyword_matches',
          cert_matches = cert_matches',
          fuzzy_skill_matches = fuzzy,
          missing_skills = set_diff job_skills resume_skills,
          missing_certs = set_diff job_certs resume_certs,
          skill_score = skill_score',
          keyword_score = keyword_score',
          cert_score = cert_score'\<rparr>)"

text \<open>The result of the \<^verbatim>\<open>except\<close> branch.\<close>

definition hard_match_failure :: hard_match_results where
  "hard_match_failure =
     \<lparr>hard_match_score = 0, skill_matches = [], keyword_matches = [], cert_matches = [],
      fuzzy_skill_matches = [], missing_skills = [], missing_certs = [],
      skill_score = 0, keyword_score = 0, cert_score = 0\<rparr>"

definition calculate_hard_match_score ::
  "analyzer option \<Rightarrow> scorer \<Rightarrow> string \<Rightarrow> string \<Rightarrow> hard_match_results" where
  "calculate_hard_match_score nlp score resume_text job_text =
     (let resume_skills = extract_technical_skills resume_text;
          job_skills = extract_technical_skills job_text
      in case extract_keywords nlp resume_text 2 of
           Inl e \<Rightarrow> hard_match_failure
         | Inr resume_keywords \<Rightarrow>
             (case extract_keywords nlp job_text 2 of
                Inl e \<Rightarrow> hard_match_failure
              | Inr job_keywords \<Rightarrow>
                  hard_match_of_features score resume_skills job_skills
                    resume_keywords job_keywords
                    (extract_certifications resume_text) (extract_certifications job_text)))"

section \<open>Embeddings and semantic similarity (\<^verbatim>\<open>EmbeddingService\<close>)\<close>

text \<open>
  The sentence encoder is a parameter: \<^verbatim>\<open>model.encode\<close>, which may raise, and the dimension
  \<^verbatim>\<open>model.get_sentence_embedding_dimension()\<close>.
\<close>

record encoder =
  encode :: "string \<Rightarrow> exn + real list"
  dimension :: nat

definition zeros :: "nat \<Rightarrow> real list" where
  "zeros n = replicate n 0"

text \<open>
  \<^verbatim>\<open>generate_embedding\<close> returns the embedding; the model also records the texts that were
  passed to \<^verbatim>\<open>model.encode\<close> during the call.
\<close>

definition generate_embedding :: "encoder \<Rightarrow> string \<Rightarrow> real list \<times> string list" where
  "generate_embedding model text =
     (let clean_text = preprocess_text text
      in if clean_text = [] then (zeros (dimension model), [])
         else (case encode model clean_text of
                 Inr embedding \<Rightarrow> (embedding, [clean_text])
               | Inl e \<Rightarrow> (zeros (dimension model), [clean_text])))"

text \<open>
  A numpy \<^verbatim>\<open>float64\<close>: a finite value, an infinity or NaN. Dividing by zero does not raise
  in numpy (it warns): the quotient is NaN for 0/0 and an infinity otherwise.
\<close>

datatype npfloat = Finite real | PosInf | NegInf | NaN

definition np_divide :: "real \<Rightarrow> real \<Rightarrow> npfloat" where
  "np_divide a b =
     (if b \<noteq> 0 then Finite (a / b)
      else if a = 0 then NaN else if 0 < a then PosInf else NegInf)"

text \<open>\<^verbatim>\<open>(x + 1) / 2\<close>\<close>

fun rescale :: "npfloat \<Rightarrow> npfloat" where
  "rescale (Finite x) = Finite ((x + 1) / 2)"
| "rescale x = x"

text \<open>The comparison \<^verbatim>\<open>x < y\<close>; every comparison with NaN is false.\<close>

fun np_less :: "npfloat \<Rightarrow> npfloat \<Rightarrow> bool" where
  "np_less NaN y = False"
| "np_less x NaN = False"
| "np_less (Finite x) (Finite y) = (x < y)"
| "np_less NegInf y = (y \<noteq> NegInf)"
| "np_less x PosInf = (x \<noteq> PosInf)"
| "np_less x y = False"

text \<open>
  Python's \<^verbatim>\<open>min(a, b)\<close> is \<^verbatim>\<open>b\<close> if \<^verbatim>\<open>b < a\<close> and \<^verbatim>\<open>a\<close> otherwise; \<^verbatim>\<open>max(a, b)\<close> is \<^verbatim>\<open>b\<close> if
  \<^verbatim>\<open>b > a\<close> and \<^verbatim>\<open>a\<close> otherwise.
\<close>

definition py_min :: "npfloat \<Rightarrow> npfloat \<Rightarrow> npfloat" where
  "py_min a b = (if np_less b a then b else a)"

definition py_max :: "npfloat \<Rightarrow> npfloat \<Rightarrow> npfloat" where
  "py_max a b = (if np_less a b then b else a)"

text \<open>
  \<^verbatim>\<open>float(x)\<close>, read as a real number. Only finite values reach it (lemma
  \<open>clamped_finite\<close> below).
\<close>

fun py_float :: "npfloat \<Rightarrow> real" where
  "py_float (Finite x) = x"
| "py_float x = 0"

definition dot :: "real list \<Rightarrow> real list \<Rightarrow> real" where
  "dot xs ys = sum_list (map2 (*) xs ys)"

definition norm2 :: "real list \<Rightarrow> real" where
  "norm2 xs = sqrt (sum_list (map (\<lambda>x. x * x) xs))"

text \<open>
  The cosine similarity, rescaled and clamped. \<^verbatim>\<open>np.dot\<close> raises on vectors of different
  lengths, and the handler returns 0.0.
\<close>

definition similarity_of_embeddings :: "real list \<Rightarrow> real list \<Rightarrow> real" where
  "similarity_of_embeddings embedding1 embedding2 =
     (if length embedding1 \<noteq> length embedding2 then 0
      else
        let similarity = np_divide (dot embedding1 embedding2)
                                   (norm2 embedding1 * norm2 embedding2)
        in py_float (py_max (Finite 0) (py_min (Finite 1) (rescale similarity))))"

definition calculate_semantic_similarity :: "encoder \<Rightarrow> string \<Rightarrow> string \<Rightarrow> real" where
  "calculate_semantic_similarity model text1 text2 =
     similarity_of_embeddings (fst (generate_embedding model text1))
                              (fst (generate_embedding model text2))"

section \<open>Semantic matching (\<^verbatim>\<open>MatchingEngine.calculate_semantic_match_score\<close>)\<close>

record sentence_match =
  job_sentence :: string
  resume_sentence :: string
  match_similarity :: real

record semantic_match_results =
  semantic_match_score :: real
  section_similarities :: "sentence_match list option"
  contextual_relevance :: real

text \<open>The inner loop: the resume sentence most similar to a job sentence.\<close>

fun best_resume_sentence ::
  "encoder \<Rightarrow> string \<Rightarrow> string list \<Rightarrow> real \<times> string \<Rightarrow> real \<times> string" where
  "best_resume_sentence model job_sent [] best = best"
| "best_resume_sentence model job_sent (resume_sent # rest) best =
     (let sim = calculate_semantic_similarity model job_sent resume_sent
      in best_resume_sentence model job_sent rest
           (if fst best < sim then (sim, resume_sent) else best))"

definition sentence_matches :: "encoder \<Rightarrow> string list \<Rightarrow> string list \<Rightarrow> sentence_match list" where
  "sentence_matches model resume_sentences job_sentences =
     concat (map (\<lambda>job_sent.
        let best = best_resume_sentence model job_sent resume_sentences (0, [])
        in if 0.3 < fst best
           then [\<lparr>job_sentence = job_sent, resume_sentence = snd best,
                  match_similarity = fst best\<rparr>]
           else []) (take 5 job_sentences))"

definition semantic_match_failure :: semantic_match_results where
  "semantic_match_failure =
     \<lparr>semantic_match_score = 0, section_similarities = None, contextual_relevance = 0\<rparr>"

text \<open>A spaCy \<^verbatim>\<open>Doc\<close> is true when it has a token.\<close>

definition calculate_semantic_match_score ::
  "analyzer option \<Rightarrow> encoder \<Rightarrow> string \<Rightarrow> string \<Rightarrow> semantic_match_results" where
  "calculate_semantic_match_score nlp model resume_text job_text =
     (let overall_similarity = calculate_semantic_similarity model resume_text job_text;
          plain = \<lparr>semantic_match_score = overall_similarity, section_similarities = None,
                   contextual_relevance = overall_similarity\<rparr>
      in case nlp of
           None \<Rightarrow> plain
         | Some analyze \<Rightarrow>
             (case analyze resume_text of
                Inl e \<Rightarrow> semantic_match_failure
              | Inr resume_info \<Rightarrow>
                  (case analyze job_text of
                     Inl e \<Rightarrow> semantic_match_failure
                   | Inr job_info \<Rightarrow>
                       if tokens resume_info \<noteq> [] \<and> tokens job_info \<noteq> []
                       then plain\<lparr>section_similarities :=
                              Some (sentence_matches model (sents resume_info) (sents job_info))\<rparr>
                       else plain)))"

section \<open>Score fusion, classification and feedback (\<^verbatim>\<open>calculate_combined_score\<close>)\<close>

text \<open>The scoring weights of \<^verbatim>\<open>config.Settings\<close>, which the environment can override.\<close>

record settings =
  hard_match_weight :: real
  semantic_match_weight :: real

definition default_settings :: settings where
  "default_settings = \<lparr>hard_match_weight = 0.4, semantic_match_weight = 0.6\<rparr>"

text \<open>The engine: the analyzer of its preprocessor, the encoder of its embedding service, the
  scorer of the fuzzy matcher and the settings it reads its weights from.\<close>

record matching_engine =
  preprocessor :: "analyzer option"
  embedding_service :: encoder
  token_sort_ratio :: scorer
  config :: settings

record feedback =
  feedback_missing_skills :: "string list"
  missing_certifications :: "string list"
  improvement_suggestions :: "string list"

text \<open>
  \<^verbatim>\<open>_generate_feedback\<close>. The suggestions of the LLM services go to a separate key, inside
  handlers of their own, and are left out, as is \<^verbatim>\<open>_get_ai_insights\<close>: neither can raise.
\<close>

definition generate_feedback :: "hard_match_results \<Rightarrow> semantic_match_results \<Rightarrow> feedback" where
  "generate_feedback hard_match semantic_match =
     (let skills = missing_skills hard_match;
          certs = missing_certs hard_match
      in \<lparr>feedback_missing_skills = skills,
          missing_certifications = certs,
          improvement_suggestions =
            (if skills \<noteq> []
             then [''Consider adding these technical skills to your resume: ''
                     @ join '', '' (take 5 skills)]
             else [])
            @ (if certs \<noteq> []
               then [''Consider obtaining these certifications: '' @ join '', '' certs]
               else [])
            @ (if semantic_match_score semantic_match < 0.5
               then [''Consider rephrasing your experience descriptions to better align with the job requirements'',
                     ''Add more specific examples and quantifiable achievements related to the job'']
               else [])
            @ (if hard_match_score hard_match < 0.4
               then [''Focus on acquiring the key technical skills mentioned in the job description'',
                     ''Include relevant projects that demonstrate your skills in the required technologies'']
               else [])\<rparr>)"

text \<open>\<^verbatim>\<open>round(x, 2)\<close> on the reals: to the nearest hundredth, a tie to the even one.\<close>

definition round2 :: "real \<Rightarrow> real" where
  "round2 x =
     (let y = x * 100; f = \<lfloor>y\<rfloor>
      in real_of_int (if y - real_of_int f < 1 / 2 then f
                      else if 1 / 2 < y - real_of_int f then f + 1
                      else if even f then f else f + 1) / 100)"

definition classify :: "real \<Rightarrow> string" where
  "classify combined =
     (if 0.7 \<le> combined then ''High'' else if 0.4 \<le> combined then ''Medium'' else ''Low'')"

record match_results =
  combined_score :: real
  score_percentage :: real
  suitability :: string
  hard_match_results :: "hard_match_results option"
  semantic_match_results :: "semantic_match_results option"
  feedback :: feedback

text \<open>
  The \<^verbatim>\<open>try\<close> body of \<^verbatim>\<open>calculate_combined_score\<close>. Both scorers and the feedback generator
  handle their own failures, so no step of the body raises and the outer \<^verbatim>\<open>except\<close> branch
  (\<open>combined_failure\<close>) is not reached from it.
\<close>

definition combined_failure :: match_results where
  "combined_failure =
     \<lparr>combined_score = 0, score_percentage = 0, suitability = ''Low'',
      hard_match_results = None, semantic_match_results = None,
      feedback = \<lparr>feedback_missing_skills = [], missing_certifications = [],
                   improvement_suggestions = [''Error occurred during analysis'']\<rparr>\<rparr>"

definition calculate_combined_score :: "matching_engine \<Rightarrow> string \<Rightarrow> string \<Rightarrow> match_results" where
  "calculate_combined_score engine resume_text job_text =
     (let hard = calculate_hard_match_score (preprocessor engine) (token_sort_ratio engine)
                   resume_text job_text;
          semantic = calculate_semantic_match_score (preprocessor engine) (embedding_service engine)
                       resume_text job_text;
          combined = hard_match_score hard * hard_match_weight (config engine)
                     + semantic_match_score semantic * semantic_match_weight (config engine)
      in \<lparr>combined_score = combined,
          score_percentage = round2 (combined * 100),
          suitability = classify combined,
          hard_match_results = Some hard,
          semantic_match_results = Some semantic,
          feedback = generate_feedback hard semantic\<rparr>)"

section \<open>Batch ranking (\<^verbatim>\<open>MatchingEngine.batch_process_resumes\<close>)\<close>

text \<open>
  A resume is a dictionary; \<^verbatim>\<open>resume.get(key, default)\<close> reads a key that may be absent.
\<close>

record resume =
  resume_text_field :: "string option"
  resume_id_field :: "string option"
  resume_metadata_field :: "(string \<times> string) list option"

record ranked_result = match_results +
  resume_id :: string
  resume_metadata :: "(string \<times> string) list"

definition get_or :: "'a option \<Rightarrow> 'a \<Rightarrow> 'a" where
  "get_or v d = (case v of None \<Rightarrow> d | Some x \<Rightarrow> x)"

text \<open>
  The call \<^verbatim>\<open>self.calculate_combined_score(resume_text, job_text)\<close> as the loop sees it: it
  returns a result or raises. The engine's own method handles every exception of its body
  and returns a result (\<open>engine_scoring\<close>).
\<close>

type_synonym scoring_call = "string \<Rightarrow> string \<Rightarrow> exn + match_results"

definition engine_scoring :: "matching_engine \<Rightarrow> scoring_call" where
  "engine_scoring engine resume_text job_text =
     Inr (calculate_combined_score engine resume_text job_text)"

text \<open>The body of the \<^verbatim>\<open>try\<close> in the loop: the scored resume with its id and metadata.\<close>

definition process_resume :: "scoring_call \<Rightarrow> string \<Rightarrow> resume \<Rightarrow> exn + ranked_result" where
  "process_resume scoring job_text r =
     (let resume_text = get_or (resume_text_field r) [];
          resume_id' = get_or (resume_id_field r) []
      in case scoring resume_text job_text of
           Inl e \<Rightarrow> Inl e
         | Inr match_results \<Rightarrow>
             Inr (match_results.extend match_results
                    (ranked_result.fields resume_id' (get_or (resume_metadata_field r) []))))"

text \<open>
  The loop over \<^verbatim>\<open>resume_data\<close>: a result is appended to \<^verbatim>\<open>results\<close>; on an exception the
  \<^verbatim>\<open>except\<close> branch logs it and continues with the next resume.
\<close>

primrec batch_loop ::
  "scoring_call \<Rightarrow> string \<Rightarrow> resume list \<Rightarrow> ranked_result list \<Rightarrow> ranked_result list" where
  "batch_loop scoring job_text [] results = results"
| "batch_loop scoring job_text (r # resume_data) results =
     (case process_resume scoring job_text r of
        Inr match_results \<Rightarrow> batch_loop scoring job_text resume_data (results @ [match_results])
      | Inl e \<Rightarrow> batch_loop scoring job_text resume_data results)"

text \<open>
  \<^verbatim>\<open>results.sort(key=..., reverse=True)\<close>: a stable sort by descending score, which is the
  stable insertion sort by the negated score.
\<close>

definition batch_process_resumes ::
  "scoring_call \<Rightarrow> string \<Rightarrow> resume list \<Rightarrow> ranked_result list" where
  "batch_process_resumes scoring job_text resume_data =
     sort_key (\<lambda>x. - combined_score x) (batch_loop scoring job_text resume_data [])"

section \<open>The vector index (\<^verbatim>\<open>store_resume_embedding\<close>, \<^verbatim>\<open>find_similar_resumes\<close>)\<close>










section \<open>Collaborators for the worked examples\<close>

text \<open>
  A scorer for the examples. fuzzywuzzy lowercases both strings and blanks out what is not
  a letter, digit or underscore before it compares them, and scores equal strings 100.
  \<open>example_ratio\<close> does so and scores all other pairs 0; the examples compare only strings
  that are equal after that processing, or have no choice to compare with.
\<close>

definition example_ratio :: scorer where
  "example_ratio query choice =
     (if filter is_word (lower query) = filter is_word (lower choice) then 100 else 0)"

definition unit_encoder :: encoder where
  "unit_encoder = \<lparr>encode = (\<lambda>text. Inr [1]), dimension = 1\<rparr>"

definition example_engine :: matching_engine where
  "example_engine =
     \<lparr>preprocessor = None, embedding_service = unit_encoder, token_sort_ratio = example_ratio,
      config = default_settings\<rparr>"

text \<open>Weights that sum to 1, as the environment can set them.\<close>

definition skewed_engine :: matching_engine where
  "skewed_engine =
     example_engine\<lparr>config := \<lparr>hard_match_weight = - 1, semantic_match_weight = 2\<rparr>\<rparr>"



definition candidate :: "string \<Rightarrow> string \<Rightarrow> resume" where
  "candidate name text =
     \<lparr>resume_text_field = Some text, resume_id_field = Some name,
      resume_metadata_field = None\<rparr>"

text \<open>
  A scoring call that scores the text "a" with 0.9 and "b" with 0.3, and raises on every
  other text.
\<close>

definition scored :: "real \<Rightarrow> match_results" where
  "scored s =
     \<lparr>combined_score = s, score_percentage = round2 (s * 100), suitability = classify s,
      hard_match_results = None, semantic_match_results = None,
      feedback = \<lparr>feedback_missing_skills = [], missing_certifications = [],
                   improvement_suggestions = []\<rparr>\<rparr>"

definition example_scoring :: scoring_call where
  "example_scoring resume_text job_text =
     (if resume_text = ''a'' then Inr (scored 0.9)
      else if resume_text = ''b'' then Inr (scored 0.3)
      else Inl Exception)"

definition ranked :: "string \<Rightarrow> real \<Rightarrow> ranked_result" where
  "ranked name s = match_results.extend (scored s) (ranked_result.fields name [])"

section \<open>Text normalization\<close>




















lemma preprocess_example:
  "preprocess_text ''Mail John.Doe@Example.com or https://a.b/c, call +1 (555) 123-4567 now!''
     = ''mail or call now''"
  by code_simp





section \<open>The fuzzy matcher\<close>

text \<open>\<^verbatim>\<open>extractOne\<close> returns the first choice with the highest score.\<close>

lemma max_by_score_mem: "max_by_score b xs \<in> set (b # xs)"
  by (induction xs arbitrary: b) auto

lemma max_by_score_ge: "q \<in> set (b # xs) \<Longrightarrow> snd q \<le> snd (max_by_score b xs)"
proof (induction xs arbitrary: b q)
  case Nil
  then show ?case by simp
next
  case (Cons x xs)
  have step: "snd b \<le> snd (max_by_score (if snd b < snd x then x else b) xs)"
             "snd x \<le> snd (max_by_score (if snd b < snd x then x else b) xs)"
    using Cons.IH[of "if snd b < snd x then x else b" "if snd b < snd x then x else b"]
    by (auto split: if_splits)
  from Cons.prems consider "q = b" | "q = x" | "q \<in> set xs" by auto
  then show ?case
  proof cases
    case 3
    then show ?thesis using Cons.IH[of q "if snd b < snd x then x else b"] by simp
  qed (use step in auto)
qed

lemma max_by_score_first:
  "find (\<lambda>q. snd q = snd (max_by_score b xs)) (b # xs) = Some (max_by_score b xs)"
proof (induction xs arbitrary: b)
  case Nil
  then show ?case by simp
next
  case (Cons x xs)
  show ?case
  proof (cases "snd b < snd x")
    case True
    then have eq: "max_by_score b (x # xs) = max_by_score x xs" by simp
    have IH: "find (\<lambda>q. snd q = snd (max_by_score x xs)) (x # xs) = Some (max_by_score x xs)"
      by (rule Cons.IH)
    have "snd x \<le> snd (max_by_score x xs)" by (rule max_by_score_ge) simp
    with True have "snd b \<noteq> snd (max_by_score x xs)" by linarith
    with IH show ?thesis unfolding eq by simp
  next
    case False
    then have eq: "max_by_score b (x # xs) = max_by_score b xs" by simp
    have IH: "find (\<lambda>q. snd q = snd (max_by_score b xs)) (b # xs) = Some (max_by_score b xs)"
      by (rule Cons.IH)
    have ge: "snd b \<le> snd (max_by_score b xs)" by (rule max_by_score_ge) simp
    show ?thesis
    proof (cases "snd b = snd (max_by_score b xs)")
      case True
      with IH show ?thesis unfolding eq by simp
    next
      case ne: False
      with ge False have "snd x \<noteq> snd (max_by_score b xs)" by linarith
      with IH ne show ?thesis unfolding eq by simp
    qed
  qed
qed

lemma extractOne_Nil: "extractOne score query [] = None"
  by (simp add: extractOne_def)

lemma extractOne_best:
  assumes "choices \<noteq> []"
  shows "\<exists>c. extractOne score query choices = Some (c, Max (score query ` set choices))
            \<and> find (\<lambda>x. score query x = Max (score query ` set choices)) choices = Some c"
proof -
  from assms obtain x xs where ch: "choices = x # xs" by (cases choices) auto
  let ?f = "\<lambda>choice. (choice, score query choice)"
  let ?m = "max_by_score (?f x) (map ?f xs)"
  have e: "extractOne score query choices = Some ?m" by (simp add: extractOne_def ch)
  have mem: "?m \<in> set (map ?f choices)" using max_by_score_mem[of "?f x" "map ?f xs"] by (simp add: ch)
  then obtain c where c: "c \<in> set choices" "?m = (c, score query c)" by auto
  have "score query y \<le> snd ?m" if "y \<in> set choices" for y
  proof -
    from that have "?f y \<in> set (?f x # map ?f xs)" by (auto simp: ch)
    then have "snd (?f y) \<le> snd ?m" by (rule max_by_score_ge)
    then show ?thesis by simp
  qed
  with c have mx: "Max (score query ` set choices) = score query c"
    by (intro Max_eqI) auto
  have "find (\<lambda>q. snd q = snd ?m) (map ?f choices) = Some ?m"
    using max_by_score_first[of "?f x" "map ?f xs"] by (simp add: ch)
  then have "find (\<lambda>y. score query y = score query c) choices = Some c"
    unfolding c(2) by (induction choices) (auto split: if_splits)
  with e c mx show ?thesis by simp
qed

lemma fuzzy_step_map_of:
  "map_of (fuzzy_step score rs th M j) =
     (case extractOne score j rs of
        None \<Rightarrow> map_of M
      | Some b \<Rightarrow>
          if th \<le> int (snd b)
          then (map_of M)(j \<mapsto> \<lparr>matched_skill = fst b, similarity = real (snd b) / 100\<rparr>)
          else map_of M)"
  by (simp add: fuzzy_step_def update_conv' split: option.splits)

lemma fuzzy_step_distinct:
  "distinct (map fst M) \<Longrightarrow> distinct (map fst (fuzzy_step score rs th M j))"
  by (simp add: fuzzy_step_def distinct_update split: option.splits)

lemma fuzzy_fold_distinct:
  "distinct (map fst M) \<Longrightarrow> distinct (map fst (foldl (fuzzy_step score rs th) M js))"
  by (induction js arbitrary: M) (simp_all add: fuzzy_step_distinct)

lemma fuzzy_fold_map_of:
  "map_of (foldl (fuzzy_step score rs th) M js) j =
     (if j \<in> set js \<and> map_of (fuzzy_step score rs th [] j) j \<noteq> None
      then map_of (fuzzy_step score rs th [] j) j else map_of M j)"
proof (induction js arbitrary: M)
  case Nil
  then show ?case by simp
next
  case (Cons k js)
  have "map_of (foldl (fuzzy_step score rs th) M (k # js)) j =
        (if j \<in> set js \<and> map_of (fuzzy_step score rs th [] j) j \<noteq> None
         then map_of (fuzzy_step score rs th [] j) j
         else map_of (fuzzy_step score rs th M k) j)"
    by (simp add: Cons.IH)
  also have "\<dots> =
        (if j \<in> set (k # js) \<and> map_of (fuzzy_step score rs th [] j) j \<noteq> None
         then map_of (fuzzy_step score rs th [] j) j else map_of M j)"
    by (auto simp: fuzzy_step_map_of split: option.splits)
  finally show ?case .
qed

lemma set_update_subset: "set (AList.update k v M) \<subseteq> insert (k, v) (set M)"
  by (induction M) auto

lemma fuzzy_step_similarity_nonneg:
  assumes "\<forall>p \<in> set M. 0 \<le> similarity (snd p)"
  shows "\<forall>p \<in> set (fuzzy_step score rs th M j). 0 \<le> similarity (snd p)"
proof (cases "extractOne score j rs")
  case None
  with assms show ?thesis by (simp add: fuzzy_step_def)
next
  case (Some b)
  show ?thesis
  proof (cases "th \<le> int (snd b)")
    case True
    let ?v = "\<lparr>matched_skill = fst b, similarity = real (snd b) / 100\<rparr>"
    have "fuzzy_step score rs th M j = AList.update j ?v M"
      using Some True by (simp add: fuzzy_step_def)
    moreover have "set (AList.update j ?v M) \<subseteq> insert (j, ?v) (set M)"
      by (rule set_update_subset)
    moreover have "0 \<le> similarity ?v" by simp
    ultimately show ?thesis using assms by auto
  next
    case False
    with Some assms show ?thesis by (simp add: fuzzy_step_def)
  qed
qed

lemma fuzzy_fold_similarity_nonneg:
  "\<forall>p \<in> set M. 0 \<le> similarity (snd p) \<Longrightarrow>
   \<forall>p \<in> set (foldl (fuzzy_step score rs th) M js). 0 \<le> similarity (snd p)"
proof (induction js arbitrary: M)
  case Nil
  then show ?case by simp
next
  case (Cons k js)
  have "\<forall>p \<in> set (fuzzy_step score rs th M k). 0 \<le> similarity (snd p)"
    using Cons.prems by (rule fuzzy_step_similarity_nonneg)
  then show ?case using Cons.IH by simp
qed

lemma fuzzy_similarity_nonneg:
  "\<forall>p \<in> set (fuzzy_match_skills score rs js th). 0 \<le> similarity (snd p)"
  unfolding fuzzy_match_skills_def by (rule fuzzy_fold_similarity_nonneg) simp

lemma fuzzy_match_skills_map_of:
  "distinct (map fst (fuzzy_match_skills score resume_skills job_skills threshold))
   \<and> map_of (fuzzy_match_skills score resume_skills job_skills threshold) job_skill =
      (if job_skill \<in> set job_skills \<and> resume_skills \<noteq> []
          \<and> threshold \<le> int (Max (score job_skill ` set resume_skills))
       then Some \<lparr>matched_skill =
                    the (find (\<lambda>r. score job_skill r = Max (score job_skill ` set resume_skills))
                              resume_skills),
                  similarity = real (Max (score job_skill ` set resume_skills)) / 100\<rparr>
       else None)"
proof (cases "resume_skills = []")
  case True
  then show ?thesis
    by (simp add: fuzzy_match_skills_def fuzzy_fold_distinct fuzzy_fold_map_of
        fuzzy_step_map_of extractOne_Nil)
next
  case False
  from extractOne_best[OF False, of score job_skill] obtain c where
    "extractOne score job_skill resume_skills
       = Some (c, Max (score job_skill ` set resume_skills))"
    "find (\<lambda>x. score job_skill x = Max (score job_skill ` set resume_skills)) resume_skills
       = Some c"
    by blast
  with False show ?thesis
    by (simp add: fuzzy_match_skills_def fuzzy_fold_distinct fuzzy_fold_map_of
        fuzzy_step_map_of)
qed

text \<open>
  Claim C4. For every candidate skill list, job skill list and threshold, the mapping that
  \<^verbatim>\<open>fuzzy_match_skills\<close> returns has at most one entry per job skill (its keys are distinct).
  A job skill has an entry exactly when it is one of the job skills, there is a candidate
  skill, and the highest score of a candidate skill against it (on the scale 0 to 100)
  reaches the threshold. The entry names the first candidate skill with that highest score
  and stores the score divided by 100. A job skill for which no candidate skill reaches the
  threshold has no entry.
\<close>

theorem fuzzy_match_skills_best_match:
  "distinct (map fst (fuzzy_match_skills score resume_skills job_skills threshold))
   \<and> map_of (fuzzy_match_skills score resume_skills job_skills threshold) job_skill =
      (if job_skill \<in> set job_skills \<and> resume_skills \<noteq> []
          \<and> threshold \<le> int (Max (score job_skill ` set resume_skills))
       then Some \<lparr>matched_skill =
                    the (find (\<lambda>r. score job_skill r = Max (score job_skill ` set resume_skills))
                              resume_skills),
                  similarity = real (Max (score job_skill ` set resume_skills)) / 100\<rparr>
       else None)"
  by (rule fuzzy_match_skills_map_of)

section \<open>Hard-match scores\<close>

lemma set_set_inter: "set (set_inter xs ys) = set xs \<inter> set ys"
  by (auto simp: set_inter_def)

lemma length_set_inter: "length (set_inter xs ys) = card (set xs \<inter> set ys)"
proof -
  have "length (set_inter xs ys) = card (set (set_inter xs ys))"
    unfolding set_inter_def by (simp add: length_remdups_card_conv)
  then show ?thesis by (simp add: set_set_inter)
qed

lemma set_set_diff: "set (set_diff xs ys) = set xs - set ys"
  by (auto simp: set_diff_def)

lemma distinct_set_diff: "distinct (set_diff xs ys)"
  by (simp add: set_diff_def)

lemma distinct_extract_technical_skills: "distinct (extract_technical_skills text)"
  by (simp add: extract_technical_skills_def Let_def)

lemma distinct_certifications: "distinct certifications"
  unfolding certifications_def by simp

lemma distinct_extract_certifications: "distinct (extract_certifications text)"
  by (simp add: extract_certifications_def Let_def distinct_certifications)

lemma distinct_extract_keywords:
  "extract_keywords nlp text n = Inr ks \<Longrightarrow> distinct ks"
  by (auto simp: extract_keywords_def Let_def split: if_splits option.splits sum.splits)

lemma coverage:
  "distinct js \<Longrightarrow>
   (if js \<noteq> [] then real (length (set_inter rs js)) / real (length js) else 0)
   = (if set js = {} then 0 else real (card (set rs \<inter> set js)) / real (card (set js)))"
  by (simp add: length_set_inter distinct_card)

lemma hard_match_features_fields:
  "fuzzy_skill_matches (hard_match_of_features score rs js rk jk rc jc)
     = fuzzy_match_skills score rs js 75"
  "skill_matches (hard_match_of_features score rs js rk jk rc jc) = set_inter rs js"
  "missing_skills (hard_match_of_features score rs js rk jk rc jc) = set_diff js rs"
  "keyword_score (hard_match_of_features score rs js rk jk rc jc)
     = (if jk \<noteq> [] then real (length (set_inter rk jk)) / real (length jk) else 0)"
  "cert_score (hard_match_of_features score rs js rk jk rc jc)
     = (if jc \<noteq> [] then real (length (set_inter rc jc)) / real (length jc) else 0)"
  "skill_score (hard_match_of_features score rs js rk jk rc jc)
     = (if js \<noteq> [] then
          max (real (length (set_inter rs js)) / real (length js))
              (sum_list (map (\<lambda>m. similarity (snd m)) (fuzzy_match_skills score rs js 75))
                 / real (length js) * 0.8)
        else 0)"
  "hard_match_score (hard_match_of_features score rs js rk jk rc jc)
     = min 1 (skill_score (hard_match_of_features score rs js rk jk rc jc) * 0.6
            + keyword_score (hard_match_of_features score rs js rk jk rc jc) * 0.3
            + cert_score (hard_match_of_features score rs js rk jk rc jc) * 0.1)"
  by (simp_all add: hard_match_of_features_def Let_def)

lemma fuzzy_sum_nonneg:
  "0 \<le> sum_list (map (\<lambda>m. similarity (snd m)) (fuzzy_match_skills score rs js th))"
proof (rule sum_list_nonneg)
  fix x assume "x \<in> set (map (\<lambda>m. similarity (snd m)) (fuzzy_match_skills score rs js th))"
  then obtain p where "p \<in> set (fuzzy_match_skills score rs js th)" "x = similarity (snd p)"
    by auto
  then show "0 \<le> x" using fuzzy_similarity_nonneg[of score rs js th] by simp
qed

lemma hard_match_features_nonneg:
  "0 \<le> skill_score (hard_match_of_features score rs js rk jk rc jc)"
  "0 \<le> keyword_score (hard_match_of_features score rs js rk jk rc jc)"
  "0 \<le> cert_score (hard_match_of_features score rs js rk jk rc jc)"
  using fuzzy_sum_nonneg[of score rs js 75]
  by (simp_all add: hard_match_features_fields le_max_iff_disj)

lemma hard_match_score_range:
  "0 \<le> hard_match_score (calculate_hard_match_score nlp score resume_text job_text)
   \<and> hard_match_score (calculate_hard_match_score nlp score resume_text job_text) \<le> 1"
proof -
  have "0 \<le> hard_match_score (hard_match_of_features score rs js rk jk rc jc)
        \<and> hard_match_score (hard_match_of_features score rs js rk jk rc jc) \<le> 1"
    for rs js rk jk rc jc
    using hard_match_features_nonneg[of score rs js rk jk rc jc]
    unfolding hard_match_features_fields(7) by simp
  then show ?thesis
    by (simp add: calculate_hard_match_score_def Let_def hard_match_failure_def
        split: sum.splits)
qed

text \<open>
  Claim C1. For every pair of texts on which keyword extraction succeeds,
  \<^verbatim>\<open>calculate_hard_match_score\<close> returns the hard-match score
  clamp(skillScore * 0.6 + keywordScore * 0.3 + certScore * 0.1, 0, 1), where skillScore is
  the larger of the exact coverage |skillMatches| / |jobSkills| and 0.8 times the fuzzy
  coverage (the sum of the similarities of the fuzzy matches, divided by |jobSkills|), and
  is 0 when there is no job skill, without a division by zero. keywordScore and certScore
  are the exact coverages of the job's keywords and certifications, and 0 when the job has
  none. (When the analyzer raises during keyword extraction, the function returns its
  all-zero result.)
\<close>

theorem hard_match_score_formula:
  assumes "extract_keywords nlp resume_text 2 = Inr resume_keywords"
      and "extract_keywords nlp job_text 2 = Inr job_keywords"
  shows
   "let r = calculate_hard_match_score nlp score resume_text job_text;
        resume_skills = set (extract_technical_skills resume_text);
        job_skills = set (extract_technical_skills job_text);
        resume_certs = set (extract_certifications resume_text);
        job_certs = set (extract_certifications job_text);
        exact_skill_coverage = real (card (resume_skills \<inter> job_skills)) / real (card job_skills);
        fuzzy_skill_coverage =
          (\<Sum>m \<leftarrow> fuzzy_skill_matches r. similarity (snd m)) / real (card job_skills)
    in set (skill_matches r) = resume_skills \<inter> job_skills
     \<and> skill_score r =
         (if job_skills = {} then 0 else max exact_skill_coverage (0.8 * fuzzy_skill_coverage))
     \<and> keyword_score r =
         (if set job_keywords = {} then 0
          else real (card (set resume_keywords \<inter> set job_keywords))
               / real (card (set job_keywords)))
     \<and> cert_score r =
         (if job_certs = {} then 0
          else real (card (resume_certs \<inter> job_certs)) / real (card job_certs))
     \<and> hard_match_score r =
         max 0 (min 1 (skill_score r * 0.6 + keyword_score r * 0.3 + cert_score r * 0.1))"
proof -
  let ?rs = "extract_technical_skills resume_text" and ?js = "extract_technical_skills job_text"
  let ?rc = "extract_certifications resume_text" and ?jc = "extract_certifications job_text"
  let ?f = "hard_match_of_features score ?rs ?js resume_keywords job_keywords ?rc ?jc"
  have r: "calculate_hard_match_score nlp score resume_text job_text = ?f"
    by (simp add: calculate_hard_match_score_def assms Let_def)
  have djs: "distinct ?js" by (rule distinct_extract_technical_skills)
  have djk: "distinct job_keywords" using assms(2) by (rule distinct_extract_keywords)
  have djc: "distinct ?jc" by (rule distinct_extract_certifications)
  have s1: "set (skill_matches ?f) = set ?rs \<inter> set ?js"
    by (simp add: hard_match_features_fields set_set_inter)
  have s2: "skill_score ?f = (if set ?js = {} then 0 else
       max (real (card (set ?rs \<inter> set ?js)) / real (card (set ?js)))
           (0.8 * ((\<Sum>m \<leftarrow> fuzzy_skill_matches ?f. similarity (snd m)) / real (card (set ?js)))))"
    using djs by (simp add: hard_match_features_fields length_set_inter distinct_card mult.commute)
  have s3: "keyword_score ?f = (if set job_keywords = {} then 0
          else real (card (set resume_keywords \<inter> set job_keywords))
               / real (card (set job_keywords)))"
    unfolding hard_match_features_fields using coverage[OF djk] by simp
  have s4: "cert_score ?f = (if set ?jc = {} then 0
          else real (card (set ?rc \<inter> set ?jc)) / real (card (set ?jc)))"
    unfolding hard_match_features_fields using coverage[OF djc] by simp
  have s5: "hard_match_score ?f =
         max 0 (min 1 (skill_score ?f * 0.6 + keyword_score ?f * 0.3 + cert_score ?f * 0.1))"
    using hard_match_features_nonneg[of score ?rs ?js resume_keywords job_keywords ?rc ?jc]
    unfolding hard_match_features_fields(7) by simp
  show ?thesis unfolding r Let_def using s1 s2 s3 s4 s5 by (intro conjI)
qed

theorem hard_match_score_formula_witness:
  "extract_keywords None ''python azure'' 2 = Inr [''python'', ''azure'']
   \<and> extract_keywords None ''python aws docker'' 2 = Inr [''python'', ''aws'', ''docker'']
   \<and> (let r = calculate_hard_match_score None example_ratio ''python azure'' ''python aws docker'';
        resume_skills = set (extract_technical_skills ''python azure'');
        job_skills = set (extract_technical_skills ''python aws docker'');
        resume_certs = set (extract_certifications ''python azure'');
        job_certs = set (extract_certifications ''python aws docker'');
        exact_skill_coverage = real (card (resume_skills \<inter> job_skills)) / real (card job_skills);
        fuzzy_skill_coverage =
          (\<Sum>m \<leftarrow> fuzzy_skill_matches r. similarity (snd m)) / real (card job_skills)
    in set (skill_matches r) = resume_skills \<inter> job_skills
     \<and> skill_score r =
         (if job_skills = {} then 0 else max exact_skill_coverage (0.8 * fuzzy_skill_coverage))
     \<and> keyword_score r =
         (if set [''python'', ''aws'', ''docker''] = {} then 0
          else real (card (set [''python'', ''azure''] \<inter> set [''python'', ''aws'', ''docker'']))
               / real (card (set [''python'', ''aws'', ''docker''])))
     \<and> cert_score r =
         (if job_certs = {} then 0
          else real (card (resume_certs \<inter> job_certs)) / real (card job_certs))
     \<and> hard_match_score r =
         max 0 (min 1 (skill_score r * 0.6 + keyword_score r * 0.3 + cert_score r * 0.1)))"
proof -
  have h1: "extract_keywords None ''python azure'' 2 = Inr [''python'', ''azure'']"
    by code_simp
  have h2: "extract_keywords None ''python aws docker'' 2 = Inr [''python'', ''aws'', ''docker'']"
    by code_simp
  show ?thesis
    by (intro conjI h1 h2 hard_match_score_formula[OF h1 h2])
qed

lemma hard_match_example:
  "calculate_hard_match_score None example_ratio ''python azure'' ''python aws docker'' =
   \<lparr>hard_match_score = 2 / 5, skill_matches = [''python'', ''r''],
    keyword_matches = [''python''], cert_matches = [],
    fuzzy_skill_matches =
      [(''python'', \<lparr>matched_skill = ''python'', similarity = 1\<rparr>),
       (''r'', \<lparr>matched_skill = ''r'', similarity = 1\<rparr>)],
    missing_skills = [''aws'', ''docker''], missing_certs = [],
    skill_score = 1 / 2, keyword_score = 1 / 3, cert_score = 0\<rparr>"
  by code_simp

lemma calculate_hard_match_score_ok:
  assumes "extract_keywords nlp resume_text 2 = Inr resume_keywords"
      and "extract_keywords nlp job_text 2 = Inr job_keywords"
  shows "calculate_hard_match_score nlp score resume_text job_text =
         hard_match_of_features score (extract_technical_skills resume_text)
           (extract_technical_skills job_text) resume_keywords job_keywords
           (extract_certifications resume_text) (extract_certifications job_text)"
  by (simp add: calculate_hard_match_score_def assms Let_def)

lemma fuzzy_keys: 
  "fst ` set (fuzzy_match_skills score rs js th) \<subseteq> set js"
proof
  fix j assume "j \<in> fst ` set (fuzzy_match_skills score rs js th)"
  then have "map_of (fuzzy_match_skills score rs js th) j \<noteq> None"
    by (simp add: map_of_eq_None_iff)
  then show "j \<in> set js"
    using fuzzy_match_skills_map_of[of score rs js th j] by (auto split: if_splits)
qed

text \<open>
  Claim C5 as stated fails: the fuzzy matcher receives the complete list of job skills. In
  the example the job skill "python" is exactly matched and is also an entry of the fuzzy
  mapping.
\<close>

theorem fuzzy_matcher_sees_exact_matches:
  "skill_matches (calculate_hard_match_score None example_ratio ''python'' ''python'')
     = [''python'']
   \<and> fuzzy_skill_matches (calculate_hard_match_score None example_ratio ''python'' ''python'')
     = [(''python'', \<lparr>matched_skill = ''python'', similarity = 1\<rparr>)]"
  by code_simp

text \<open>
  Claim C5, amended. In hard-match scoring (when keyword extraction succeeds), fuzzy skill
  matching is applied to the complete list of job skills, those that are exactly matched
  included: a job skill that is also one of the candidate's skills is submitted to the fuzzy
  matcher and, when its score against itself reaches the threshold 75, it has an entry in the
  fuzzy mapping, with a similarity of at least that score divided by 100.
\<close>

theorem fuzzy_matching_covers_all_job_skills:
  assumes "extract_keywords nlp resume_text 2 = Inr resume_keywords"
      and "extract_keywords nlp job_text 2 = Inr job_keywords"
      and "job_skill \<in> set (skill_matches (calculate_hard_match_score nlp score resume_text job_text))"
      and "75 \<le> score job_skill job_skill"
  shows "fuzzy_skill_matches (calculate_hard_match_score nlp score resume_text job_text)
           = fuzzy_match_skills score (extract_technical_skills resume_text)
               (extract_technical_skills job_text) 75
         \<and> (\<exists>m. map_of (fuzzy_skill_matches
                        (calculate_hard_match_score nlp score resume_text job_text)) job_skill
                   = Some m
                \<and> real (score job_skill job_skill) / 100 \<le> similarity m)"
proof -
  let ?rs = "extract_technical_skills resume_text" and ?js = "extract_technical_skills job_text"
  have r: "fuzzy_skill_matches (calculate_hard_match_score nlp score resume_text job_text)
             = fuzzy_match_skills score ?rs ?js 75"
       "skill_matches (calculate_hard_match_score nlp score resume_text job_text)
             = set_inter ?rs ?js"
    by (simp_all add: calculate_hard_match_score_ok[OF assms(1,2)] hard_match_features_fields)
  from assms(3) have mem: "job_skill \<in> set ?rs" "job_skill \<in> set ?js"
    by (simp_all add: r set_set_inter)
  then have ne: "?rs \<noteq> []" by auto
  have ge: "score job_skill job_skill \<le> Max (score job_skill ` set ?rs)"
    using mem(1) by (intro Max_ge) auto
  with assms(4) have "(75::int) \<le> int (Max (score job_skill ` set ?rs))" by linarith
  with mem ne ge show ?thesis
    unfolding r by (simp add: fuzzy_match_skills_map_of divide_right_mono)
qed

theorem fuzzy_matching_covers_all_job_skills_witness:
  "extract_keywords None ''python'' 2 = Inr [''python'']
   \<and> ''python'' \<in> set (skill_matches (calculate_hard_match_score None example_ratio ''python'' ''python''))
   \<and> 75 \<le> example_ratio ''python'' ''python''
   \<and> fuzzy_skill_matches (calculate_hard_match_score None example_ratio ''python'' ''python'')
           = fuzzy_match_skills example_ratio (extract_technical_skills ''python'')
               (extract_technical_skills ''python'') 75
   \<and> (\<exists>m. map_of (fuzzy_skill_matches
                        (calculate_hard_match_score None example_ratio ''python'' ''python'')) ''python''
                   = Some m
                \<and> real (example_ratio ''python'' ''python'') / 100 \<le> similarity m)"
proof -
  have h1: "extract_keywords None ''python'' 2 = Inr [''python'']" by code_simp
  have h3: "''python'' \<in> set (skill_matches (calculate_hard_match_score None example_ratio ''python'' ''python''))"
    by code_simp
  have h4: "75 \<le> example_ratio ''python'' ''python''" by code_simp
  from fuzzy_matching_covers_all_job_skills[OF h1 h1 h3 h4] h1 h3 h4 show ?thesis by blast
qed

text \<open>
  Claim C10. For every pair of texts on which keyword extraction succeeds, the list
  \<^verbatim>\<open>missing_skills\<close> of \<^verbatim>\<open>calculate_hard_match_score\<close> holds exactly the job skills that are
  not among the resume's skills (the set difference of the extracted skill sets, without
  duplicates); a job skill with a fuzzy match but no exact match is still in it; and the
  feedback of \<^verbatim>\<open>calculate_combined_score\<close> carries this same list as its missing skills and,
  when the list is not empty, names its first five entries in its first suggestion.
\<close>

theorem missing_skills_set_difference:
  assumes "extract_keywords (preprocessor engine) resume_text 2 = Inr resume_keywords"
      and "extract_keywords (preprocessor engine) job_text 2 = Inr job_keywords"
  shows
   "let r = calculate_hard_match_score (preprocessor engine) (token_sort_ratio engine)
              resume_text job_text;
        resume_skills = set (extract_technical_skills resume_text);
        job_skills = set (extract_technical_skills job_text)
    in set (missing_skills r) = job_skills - resume_skills
     \<and> distinct (missing_skills r)
     \<and> (\<forall>job_skill. job_skill \<in> fst ` set (fuzzy_skill_matches r) \<and> job_skill \<notin> resume_skills
            \<longrightarrow> job_skill \<in> set (missing_skills r))
     \<and> feedback_missing_skills
          (feedback (calculate_combined_score engine resume_text job_text)) = missing_skills r
     \<and> (missing_skills r \<noteq> []
          \<longrightarrow> hd (improvement_suggestions
                   (feedback (calculate_combined_score engine resume_text job_text)))
              = ''Consider adding these technical skills to your resume: ''
                @ join '', '' (take 5 (missing_skills r)))"
proof -
  let ?rs = "extract_technical_skills resume_text" and ?js = "extract_technical_skills job_text"
  let ?r = "calculate_hard_match_score (preprocessor engine) (token_sort_ratio engine)
              resume_text job_text"
  have r: "fuzzy_skill_matches ?r = fuzzy_match_skills (token_sort_ratio engine) ?rs ?js 75"
          "missing_skills ?r = set_diff ?js ?rs"
    by (simp_all add: calculate_hard_match_score_ok[OF assms] hard_match_features_fields)
  have a: "set (missing_skills ?r) = set ?js - set ?rs" by (simp add: r set_set_diff)
  have b: "distinct (missing_skills ?r)" by (simp add: r distinct_set_diff)
  have c: "\<forall>j. j \<in> fst ` set (fuzzy_skill_matches ?r) \<and> j \<notin> set ?rs
             \<longrightarrow> j \<in> set (missing_skills ?r)"
    unfolding a r(1) using fuzzy_keys[of "token_sort_ratio engine" ?rs ?js 75] by blast
  have d: "feedback_missing_skills (feedback (calculate_combined_score engine resume_text job_text))
             = missing_skills ?r"
    by (simp add: calculate_combined_score_def generate_feedback_def Let_def)
  have e: "missing_skills ?r \<noteq> []
          \<longrightarrow> hd (improvement_suggestions
                   (feedback (calculate_combined_score engine resume_text job_text)))
              = ''Consider adding these technical skills to your resume: ''
                @ join '', '' (take 5 (missing_skills ?r))"
    by (simp add: calculate_combined_score_def generate_feedback_def Let_def)
  show ?thesis unfolding Let_def using a b c d e by (intro conjI)
qed

theorem missing_skills_set_difference_witness:
  "extract_keywords (preprocessor example_engine) ''c++'' 2 = Inr []
   \<and> extract_keywords (preprocessor example_engine) ''c#'' 2 = Inr []
   \<and> ''c#'' \<in> fst ` set (fuzzy_skill_matches
         (calculate_hard_match_score (preprocessor example_engine)
            (token_sort_ratio example_engine) ''c++'' ''c#''))
   \<and> ''c#'' \<notin> set (extract_technical_skills ''c++'')
   \<and> ''c#'' \<in> set (missing_skills
         (calculate_hard_match_score (preprocessor example_engine)
            (token_sort_ratio example_engine) ''c++'' ''c#''))
   \<and> feedback_missing_skills (feedback (calculate_combined_score example_engine ''c++'' ''c#''))
       = [''c#'']
   \<and> hd (improvement_suggestions
            (feedback (calculate_combined_score example_engine ''c++'' ''c#'')))
       = ''Consider adding these technical skills to your resume: c#''"
proof -
  have h1: "extract_keywords (preprocessor example_engine) ''c++'' 2 = Inr []" by code_simp
  have h2: "extract_keywords (preprocessor example_engine) ''c#'' 2 = Inr []" by code_simp
  have h3: "''c#'' \<in> fst ` set (fuzzy_skill_matches
         (calculate_hard_match_score (preprocessor example_engine)
            (token_sort_ratio example_engine) ''c++'' ''c#''))"
    by code_simp
  have h4: "''c#'' \<notin> set (extract_technical_skills ''c++'')" by code_simp
  have h5: "missing_skills (calculate_hard_match_score (preprocessor example_engine)
              (token_sort_ratio example_engine) ''c++'' ''c#'') = [''c#'']"
    by code_simp
  let ?r = "calculate_hard_match_score (preprocessor example_engine)
              (token_sort_ratio example_engine) ''c++'' ''c#''"
  note th = missing_skills_set_difference[OF h1 h2, unfolded Let_def]
  from h5 have ne: "missing_skills ?r \<noteq> []" by simp
  from th have t1: "\<forall>job_skill. job_skill \<in> fst ` set (fuzzy_skill_matches ?r)
              \<and> job_skill \<notin> set (extract_technical_skills ''c++'')
            \<longrightarrow> job_skill \<in> set (missing_skills ?r)"
    by blast
  from th have t2: "feedback_missing_skills
        (feedback (calculate_combined_score example_engine ''c++'' ''c#'')) = missing_skills ?r"
    by blast
  from th ne have t3: "hd (improvement_suggestions
            (feedback (calculate_combined_score example_engine ''c++'' ''c#'')))
       = ''Consider adding these technical skills to your resume: ''
         @ join '', '' (take 5 (missing_skills ?r))"
    by blast
  from t1 h3 h4 have m: "''c#'' \<in> set (missing_skills ?r)" by blast
  from t2 have f: "feedback_missing_skills
        (feedback (calculate_combined_score example_engine ''c++'' ''c#'')) = [''c#'']"
    unfolding h5 .
  from t3 have s: "hd (improvement_suggestions
            (feedback (calculate_combined_score example_engine ''c++'' ''c#'')))
       = ''Consider adding these technical skills to your resume: c#''"
    unfolding h5 by simp
  show ?thesis using h1 h2 h3 h4 m f s by (intro conjI)
qed

section \<open>Suitability tiers\<close>

lemma classify_cases:
  "(classify c = ''High'') = (0.7 \<le> c)"
  "(classify c = ''Medium'') = (0.4 \<le> c \<and> c < 0.7)"
  "(classify c = ''Low'') = (c < 0.4)"
  by (auto simp: classify_def)

lemma suitability_combined:
  "suitability (calculate_combined_score engine resume_text job_text) =
   classify (combined_score (calculate_combined_score engine resume_text job_text))"
  by (simp add: calculate_combined_score_def Let_def)

text \<open>
  Claim C3. For every result of \<^verbatim>\<open>calculate_combined_score\<close>, the suitability is "High"
  exactly when the combined score is at least 0.7, "Medium" exactly when it is at least 0.4
  and below 0.7, and "Low" exactly when it is below 0.4. The boundary values belong to the
  higher tier: 0.7 is "High" and 0.4 is "Medium". The result of the error branch (score 0,
  "Low") follows the same tiers.
\<close>

theorem suitability_tiers:
  "(suitability (calculate_combined_score engine resume_text job_text) = ''High'')
     = (0.7 \<le> combined_score (calculate_combined_score engine resume_text job_text))
   \<and> (suitability (calculate_combined_score engine resume_text job_text) = ''Medium'')
     = (0.4 \<le> combined_score (calculate_combined_score engine resume_text job_text)
        \<and> combined_score (calculate_combined_score engine resume_text job_text) < 0.7)
   \<and> (suitability (calculate_combined_score engine resume_text job_text) = ''Low'')
     = (combined_score (calculate_combined_score engine resume_text job_text) < 0.4)
   \<and> classify 0.7 = ''High'' \<and> classify 0.4 = ''Medium''
   \<and> suitability combined_failure = classify (combined_score combined_failure)"
  unfolding suitability_combined classify_cases
  by (simp add: classify_def combined_failure_def)

section \<open>Score fusion\<close>

lemma clamped_finite:
  "\<exists>v. py_max (Finite 0) (py_min (Finite 1) x) = Finite v \<and> 0 \<le> v \<and> v \<le> 1"
  by (cases x) (auto simp: py_max_def py_min_def)

lemma similarity_of_embeddings_range:
  "0 \<le> similarity_of_embeddings a b \<and> similarity_of_embeddings a b \<le> 1"
proof (cases "length a = length b")
  case True
  obtain v where "py_max (Finite 0) (py_min (Finite 1)
       (rescale (np_divide (dot a b) (norm2 a * norm2 b)))) = Finite v" "0 \<le> v" "v \<le> 1"
    using clamped_finite by blast
  with True show ?thesis by (simp add: similarity_of_embeddings_def)
next
  case False
  then show ?thesis by (simp add: similarity_of_embeddings_def)
qed

lemma semantic_match_score_range:
  "0 \<le> semantic_match_score (calculate_semantic_match_score nlp model resume_text job_text)
   \<and> semantic_match_score (calculate_semantic_match_score nlp model resume_text job_text) \<le> 1"
  using similarity_of_embeddings_range
  by (auto simp: calculate_semantic_match_score_def calculate_semantic_similarity_def Let_def
      semantic_match_failure_def split: option.splits sum.splits)

lemma convex_combination_range:
  fixes h s hw sw :: real
  assumes "0 \<le> h" "h \<le> 1" "0 \<le> s" "s \<le> 1" "0 \<le> hw" "0 \<le> sw" "hw + sw = 1"
  shows "0 \<le> h * hw + s * sw \<and> h * hw + s * sw \<le> 1"
proof
  show "0 \<le> h * hw + s * sw" using assms by simp
  have "h * hw \<le> 1 * hw" using assms by (intro mult_right_mono) auto
  moreover have "s * sw \<le> 1 * sw" using assms by (intro mult_right_mono) auto
  ultimately show "h * hw + s * sw \<le> 1" using assms by linarith
qed

lemma combined_score_eq:
  "combined_score (calculate_combined_score engine resume_text job_text) =
     hard_match_score (calculate_hard_match_score (preprocessor engine) (token_sort_ratio engine)
        resume_text job_text) * hard_match_weight (config engine)
   + semantic_match_score (calculate_semantic_match_score (preprocessor engine)
        (embedding_service engine) resume_text job_text) * semantic_match_weight (config engine)"
  by (simp add: calculate_combined_score_def Let_def)

lemma preprocess_yyy: "preprocess_text ''yyy'' = ''yyy''" by code_simp
lemma preprocess_zzz: "preprocess_text ''zzz'' = ''zzz''" by code_simp

lemma unit_similarity:
  "preprocess_text a \<noteq> [] \<Longrightarrow> preprocess_text b \<noteq> [] \<Longrightarrow>
   calculate_semantic_similarity unit_encoder a b = 1"
  by (simp add: calculate_semantic_similarity_def generate_embedding_def unit_encoder_def
      similarity_of_embeddings_def dot_def norm2_def np_divide_def py_max_def py_min_def Let_def)

text \<open>
  Claim C2 as stated fails: weights that sum to 1 need not be non-negative (the settings
  accept any two floats), and then the combined score can leave the interval from 0 to 1.
  With the weights -1 and 2, a hard-match score of 0 and a semantic score of 1, it is 2.
\<close>

theorem combined_score_exceeds_one:
  "hard_match_weight (config skewed_engine) + semantic_match_weight (config skewed_engine) = 1
   \<and> hard_match_score (calculate_hard_match_score (preprocessor skewed_engine)
        (token_sort_ratio skewed_engine) ''yyy'' ''zzz'') = 0
   \<and> semantic_match_score (calculate_semantic_match_score (preprocessor skewed_engine)
        (embedding_service skewed_engine) ''yyy'' ''zzz'') = 1
   \<and> combined_score (calculate_combined_score skewed_engine ''yyy'' ''zzz'') = 2"
proof -
  have w: "hard_match_weight (config skewed_engine) = - 1"
          "semantic_match_weight (config skewed_engine) = 2"
    by (simp_all add: skewed_engine_def)
  have h: "hard_match_score (calculate_hard_match_score (preprocessor skewed_engine)
        (token_sort_ratio skewed_engine) ''yyy'' ''zzz'') = 0"
    by code_simp
  have s: "semantic_match_score (calculate_semantic_match_score (preprocessor skewed_engine)
        (embedding_service skewed_engine) ''yyy'' ''zzz'') = 1"
    by (simp add: skewed_engine_def example_engine_def calculate_semantic_match_score_def
        unit_similarity preprocess_yyy preprocess_zzz)
  show ?thesis unfolding combined_score_eq h s w by simp
qed

text \<open>
  Claim C2, amended. For every pair of texts, \<^verbatim>\<open>calculate_combined_score\<close> returns the
  combined score hardMatchScore * hardWeight + semanticMatchScore * semanticWeight; the
  default weights are 0.4 and 0.6, which sum to 1; both sub-scores lie between 0 and 1; and
  whenever the weights are non-negative and sum to 1, the combined score lies between 0
  and 1.
\<close>

theorem combined_score_fusion:
  "let r = calculate_combined_score engine resume_text job_text;
       hard = hard_match_score (calculate_hard_match_score (preprocessor engine)
                (token_sort_ratio engine) resume_text job_text);
       semantic = semantic_match_score (calculate_semantic_match_score (preprocessor engine)
                    (embedding_service engine) resume_text job_text);
       hard_weight = hard_match_weight (config engine);
       semantic_weight = semantic_match_weight (config engine)
   in combined_score r = hard * hard_weight + semantic * semantic_weight
    \<and> 0 \<le> hard \<and> hard \<le> 1 \<and> 0 \<le> semantic \<and> semantic \<le> 1
    \<and> (0 \<le> hard_weight \<and> 0 \<le> semantic_weight \<and> hard_weight + semantic_weight = 1
         \<longrightarrow> 0 \<le> combined_score r \<and> combined_score r \<le> 1)
    \<and> hard_match_weight default_settings = 0.4
    \<and> semantic_match_weight default_settings = 0.6
    \<and> hard_match_weight default_settings + semantic_match_weight default_settings = 1"
proof -
  let ?h = "hard_match_score (calculate_hard_match_score (preprocessor engine)
                (token_sort_ratio engine) resume_text job_text)"
  let ?s = "semantic_match_score (calculate_semantic_match_score (preprocessor engine)
                    (embedding_service engine) resume_text job_text)"
  have h: "0 \<le> ?h \<and> ?h \<le> 1" by (rule hard_match_score_range)
  have s: "0 \<le> ?s \<and> ?s \<le> 1" by (rule semantic_match_score_range)
  have d: "hard_match_weight default_settings = 0.4"
          "semantic_match_weight default_settings = 0.6"
          "hard_match_weight default_settings + semantic_match_weight default_settings = 1"
    by (simp_all add: default_settings_def)
  show ?thesis
    unfolding Let_def combined_score_eq
    using h s d convex_combination_range[of ?h ?s "hard_match_weight (config engine)"
        "semantic_match_weight (config engine)"]
    by blast
qed

theorem combined_score_fusion_witness:
  "0 \<le> hard_match_weight (config example_engine)
   \<and> 0 \<le> semantic_match_weight (config example_engine)
   \<and> hard_match_weight (config example_engine) + semantic_match_weight (config example_engine) = 1
   \<and> 0 \<le> combined_score (calculate_combined_score example_engine ''yyy'' ''zzz'')
   \<and> combined_score (calculate_combined_score example_engine ''yyy'' ''zzz'') \<le> 1"
proof -
  have w: "0 \<le> hard_match_weight (config example_engine)"
          "0 \<le> semantic_match_weight (config example_engine)"
          "hard_match_weight (config example_engine)
             + semantic_match_weight (config example_engine) = 1"
    by (simp_all add: example_engine_def default_settings_def)
  from combined_score_fusion[of example_engine "''yyy''" "''zzz''"] w show ?thesis
    unfolding Let_def by blast
qed

section \<open>Embeddings of empty texts\<close>

lemma sum_list_replicate_zero: "sum_list (replicate n (0::real)) = 0"
  by (induction n) simp_all

lemma dot_zeros: "dot (zeros n) (zeros n) = 0"
  by (simp add: dot_def zeros_def sum_list_replicate_zero)

lemma norm2_zeros: "norm2 (zeros n) = 0"
  by (simp add: norm2_def zeros_def sum_list_replicate_zero)

lemma similarity_of_zero_vectors: "similarity_of_embeddings (zeros n) (zeros n) = 1"
  by (simp add: similarity_of_embeddings_def dot_zeros norm2_zeros np_divide_def
      py_min_def py_max_def)

lemma generate_embedding_empty:
  "preprocess_text text = [] \<Longrightarrow> generate_embedding model text = (zeros (dimension model), [])"
  by (simp add: generate_embedding_def)

lemma preprocess_blank: "preprocess_text ''   '' = []" by code_simp

text \<open>
  Claim C7, as the code has it. For an input that normalizes to the empty string (the empty
  text, a text of blanks), \<^verbatim>\<open>generate_embedding\<close> returns the zero vector of the encoder's
  dimension and passes nothing to the encoder. The similarity of two such texts is then
  computed from the quotient 0/0 of the cosine formula, which numpy evaluates to NaN without
  raising; the clamp \<^verbatim>\<open>max(0, min(1, ...))\<close> turns NaN into 1, so that the similarity of the
  zero vector with itself is 1.0, not 0.0.
\<close>

theorem zero_vector_similarity_is_one:
  "generate_embedding model [] = (zeros (dimension model), [])
   \<and> generate_embedding model ''   '' = (zeros (dimension model), [])
   \<and> np_divide (dot (zeros (dimension model)) (zeros (dimension model)))
        (norm2 (zeros (dimension model)) * norm2 (zeros (dimension model))) = NaN
   \<and> calculate_semantic_similarity model [] [] = 1
   \<and> calculate_semantic_similarity model ''   '' [] = 1"
proof -
  have e: "preprocess_text [] = []" by (simp add: preprocess_text_def)
  show ?thesis
    by (simp add: calculate_semantic_similarity_def generate_embedding_empty e preprocess_blank
        similarity_of_zero_vectors dot_zeros norm2_zeros np_divide_def)
qed

section \<open>Batch ranking\<close>

lemma hard_match_raises:
  "extract_keywords nlp resume_text 2 = Inl e \<Longrightarrow>
   calculate_hard_match_score nlp score resume_text job_text = hard_match_failure"
  by (simp add: calculate_hard_match_score_def Let_def)

lemma semantic_match_raises:
  "nlp = Some analyze \<Longrightarrow> analyze resume_text = Inl e \<Longrightarrow>
   calculate_semantic_match_score nlp model resume_text job_text = semantic_match_failure"
  by (simp add: calculate_semantic_match_score_def Let_def)

lemma batch_loop_append:
  "batch_loop scoring job_text resume_data results
     = results @ List.map_filter
         (\<lambda>r. case process_resume scoring job_text r of Inl e \<Rightarrow> None | Inr x \<Rightarrow> Some x)
         resume_data"
  by (induction resume_data arbitrary: results)
     (simp_all split: sum.splits)

lemma batch_process_resumes_sort:
  "batch_process_resumes scoring job_text resume_data
     = sort_key (\<lambda>x. - combined_score x)
         (List.map_filter
            (\<lambda>r. case process_resume scoring job_text r of Inl e \<Rightarrow> None | Inr x \<Rightarrow> Some x)
            resume_data)"
  by (simp add: batch_process_resumes_def batch_loop_append)

lemma map_filter_skip:
  "f r = None \<Longrightarrow> List.map_filter f (before @ r # after) = List.map_filter f (before @ after)"
  by (simp add: List.map_filter_def)

lemma process_resume_raises:
  "scoring (get_or (resume_text_field r) []) job_text = Inl e \<Longrightarrow>
   process_resume scoring job_text r = Inl e"
  by (simp add: process_resume_def Let_def)

lemma process_resume_returns:
  "scoring (get_or (resume_text_field r) []) job_text = Inr m \<Longrightarrow>
   process_resume scoring job_text r
     = Inr (match_results.extend m
              (ranked_result.fields (get_or (resume_id_field r) [])
                 (get_or (resume_metadata_field r) [])))"
  by (simp add: process_resume_def Let_def)

lemma engine_scoring_keeps_all:
  "length (batch_process_resumes (engine_scoring engine) job_text resume_data)
     = length resume_data"
  by (simp add: batch_process_resumes_sort List.map_filter_def process_resume_def
        engine_scoring_def Let_def)

lemma ranked_fields:
  "combined_score (ranked name s) = s"
  "resume_id (ranked name s) = name"
  by (simp_all add: ranked_def scored_def match_results.defs ranked_result.defs)

lemma example_process:
  "process_resume example_scoring job_text (candidate name ''a'') = Inr (ranked name 0.9)"
  "process_resume example_scoring job_text (candidate name ''b'') = Inr (ranked name 0.3)"
  "process_resume example_scoring job_text (candidate name ''c'') = Inl Exception"
  by (simp_all add: process_resume_def example_scoring_def candidate_def get_or_def ranked_def
        Let_def)

text \<open>
  Claim C6. The result of batch ranking is ordered by descending combined score; results
  with equal scores keep the order of the input (for every score, the results with that
  score are the successfully scored candidates with that score, in input order). The results
  are exactly the candidates whose scoring call returns, each with its id and metadata; a
  candidate whose scoring call raises contributes no result and does not change the results
  of the others: the ranking is that of the batch without this candidate.
\<close>

theorem batch_ranking_skips_failures:
  "sorted_wrt (\<lambda>x y. combined_score y \<le> combined_score x)
     (batch_process_resumes scoring job_text resume_data)
   \<and> (\<forall>k. filter (\<lambda>x. combined_score x = k)
              (batch_process_resumes scoring job_text resume_data)
          = List.map_filter
              (\<lambda>r. case scoring (get_or (resume_text_field r) []) job_text of
                     Inl e \<Rightarrow> None
                   | Inr m \<Rightarrow>
                       if combined_score m = k
                       then Some (match_results.extend m
                              (ranked_result.fields (get_or (resume_id_field r) [])
                                 (get_or (resume_metadata_field r) [])))
                       else None)
              resume_data)
   \<and> (\<forall>(r :: resume) e. scoring (get_or (resume_text_field r) []) job_text = Inl e
          \<longrightarrow> batch_process_resumes scoring job_text (before @ r # after)
              = batch_process_resumes scoring job_text (before @ after))"
proof (intro conjI allI impI)
  let ?f = "\<lambda>r. case process_resume scoring job_text r of Inl e \<Rightarrow> None | Inr x \<Rightarrow> Some x"
  have "sorted (map (\<lambda>x. - combined_score x)
          (batch_process_resumes scoring job_text resume_data))"
    unfolding batch_process_resumes_def by (rule sorted_sort_key)
  then show "sorted_wrt (\<lambda>x y. combined_score y \<le> combined_score x)
     (batch_process_resumes scoring job_text resume_data)"
    by (simp add: sorted_map)
next
  fix k
  let ?f = "\<lambda>r. case process_resume scoring job_text r of Inl e \<Rightarrow> None | Inr x \<Rightarrow> Some x"
  let ?g = "\<lambda>r. case scoring (get_or (resume_text_field r) []) job_text of
                     Inl e \<Rightarrow> None
                   | Inr m \<Rightarrow>
                       if combined_score m = k
                       then Some (match_results.extend m
                              (ranked_result.fields (get_or (resume_id_field r) [])
                                 (get_or (resume_metadata_field r) [])))
                       else None"
  have eq: "(\<lambda>x :: ranked_result. combined_score x = k) = (\<lambda>x. - combined_score x = - k)"
    by auto
  have "filter (\<lambda>x. combined_score x = k) (batch_process_resumes scoring job_text resume_data)
      = filter (\<lambda>x. combined_score x = k) (List.map_filter ?f resume_data)"
    unfolding batch_process_resumes_sort eq by (rule sort_key_stable)
  also have "\<dots> = List.map_filter ?g resume_data"
  proof (induction resume_data)
    case Nil
    show ?case by simp
  next
    case (Cons r rs)
    show ?case
    proof (cases "scoring (get_or (resume_text_field r) []) job_text")
      case (Inl e)
      then show ?thesis
        using Cons by (simp add: process_resume_raises)
    next
      case (Inr m)
      then show ?thesis
        using Cons
        by (simp add: process_resume_returns match_results.defs
              ranked_result.defs)
    qed
  qed
  finally show "filter (\<lambda>x. combined_score x = k)
              (batch_process_resumes scoring job_text resume_data)
          = List.map_filter ?g resume_data" .
next
  fix r :: resume and e
  assume "scoring (get_or (resume_text_field r) []) job_text = Inl e"
  then have "process_resume scoring job_text r = Inl e" by (rule process_resume_raises)
  then show "batch_process_resumes scoring job_text (before @ r # after)
              = batch_process_resumes scoring job_text (before @ after)"
    by (simp add: batch_process_resumes_sort map_filter_skip)
qed

theorem batch_ranking_skips_failures_witness:
  "example_scoring (get_or (resume_text_field (candidate ''C'' ''c'')) []) ''job''
     = Inl Exception
   \<and> batch_process_resumes example_scoring ''job''
       ([candidate ''A'' ''a'', candidate ''B'' ''b''] @ candidate ''C'' ''c'' # [])
     = batch_process_resumes example_scoring ''job''
         ([candidate ''A'' ''a'', candidate ''B'' ''b''] @ [])
   \<and> map resume_id (batch_process_resumes example_scoring ''job''
         [candidate ''A'' ''a'', candidate ''B'' ''b'', candidate ''C'' ''c''])
     = [''A'', ''B'']
   \<and> map combined_score (batch_process_resumes example_scoring ''job''
         [candidate ''A'' ''a'', candidate ''B'' ''b'', candidate ''C'' ''c''])
     = [0.9, 0.3]
   \<and> map resume_id (batch_process_resumes example_scoring ''job''
         [candidate ''B'' ''b'', candidate ''C'' ''c'', candidate ''A'' ''a'',
          candidate ''D'' ''b''])
     = [''A'', ''B'', ''D'']"
proof -
  let ?A = "candidate ''A'' ''a''" and ?B = "candidate ''B'' ''b''"
  let ?C = "candidate ''C'' ''c''" and ?D = "candidate ''D'' ''b''"
  have raises: "example_scoring (get_or (resume_text_field ?C) []) ''job'' = Inl Exception"
    by (simp add: example_scoring_def candidate_def get_or_def)
  have skip: "batch_process_resumes example_scoring ''job'' ([?A, ?B] @ ?C # [])
     = batch_process_resumes example_scoring ''job'' ([?A, ?B] @ [])"
    using batch_ranking_skips_failures [of example_scoring "''job''" "[]" "[?A, ?B]" "[]"]
          raises
    by blast
  have loop2: "batch_loop example_scoring ''job'' [?A, ?B] []
      = [ranked ''A'' 0.9, ranked ''B'' 0.3]"
    by (simp add: example_process)
  have loop4: "batch_loop example_scoring ''job'' [?B, ?C, ?A, ?D] []
      = [ranked ''B'' 0.3, ranked ''A'' 0.9, ranked ''D'' 0.3]"
    by (simp add: example_process)
  have two: "batch_process_resumes example_scoring ''job'' [?A, ?B]
      = [ranked ''A'' 0.9, ranked ''B'' 0.3]"
    unfolding batch_process_resumes_def loop2 by (simp add: ranked_fields)
  have tie: "batch_process_resumes example_scoring ''job'' [?B, ?C, ?A, ?D]
      = [ranked ''A'' 0.9, ranked ''B'' 0.3, ranked ''D'' 0.3]"
    unfolding batch_process_resumes_def loop4 by (simp add: ranked_fields)
  from skip raises show ?thesis
    unfolding tie by (simp add: two ranked_fields)
qed

section \<open>The vector index: storing and finding\<close>












end
